theory Spec2Isabelle
  imports Complex_Main "HOL-Library.Multiset"
begin

section \<open>Python values, exceptions and the configuration document\<close>

text \<open>
  The scripts \<^verbatim>\<open>ml/scripts/train_baseline.py\<close> and \<^verbatim>\<open>ml/scripts/predict_file.py\<close>
  are modelled as pure functions. An exception is a value: a computation that can raise
  has the type \<open>exn + 'a\<close>, with \<open>Inl\<close> the exception. Only subclasses of Python's
  \<^verbatim>\<open>Exception\<close> are modelled (what \<^verbatim>\<open>except Exception\<close> catches).

  The calls of librosa, numpy, scikit-learn and joblib are parameters of the model
  (records of functions), since these libraries are not part of the repository. Python
  floats are modelled as real numbers: the scripts themselves only subtract from
  \<^verbatim>\<open>1.0\<close>, divide two configuration values, add \<^verbatim>\<open>1e-10\<close> and compare with
  \<^verbatim>\<open>0.5\<close>; all other floating-point work happens inside the library calls.

  The models start after the command line, the YAML configuration and the CSV manifest
  have been read: the configuration is the value \<^verbatim>\<open>yaml.safe_load\<close> returned, the
  manifest is the list of its rows. Failures of the file system are not modelled.
\<close>

datatype exn =
    KeyError string
  | TypeError
  | ZeroDivisionError
  | IndexError
  | OverflowError
  | ValueError string
  | RuntimeError string
  | OtherError string

definition bindE :: "exn + 'a \<Rightarrow> ('a \<Rightarrow> exn + 'b) \<Rightarrow> exn + 'b" where
  "bindE m f = (case m of Inl e \<Rightarrow> Inl e | Inr x \<Rightarrow> f x)"

text \<open>
  What \<^verbatim>\<open>yaml.safe_load\<close> returns: scalars, lists and dictionaries. A dictionary is an
  association list (its keys are distinct).
\<close>

datatype cfgval =
    CInt int
  | CFloat real
  | CStr string
  | CBool bool
  | CNull
  | CList "cfgval list"
  | CDict "(string \<times> cfgval) list"

text \<open>\<^verbatim>\<open>v[k]\<close> for a string key: a missing key raises KeyError, a value that is
  not a dictionary raises TypeError.\<close>

fun py_getitem :: "cfgval \<Rightarrow> string \<Rightarrow> exn + cfgval" where
  "py_getitem (CDict kvs) k =
     (case map_of kvs k of None \<Rightarrow> Inl (KeyError k) | Some v \<Rightarrow> Inr v)"
| "py_getitem _ k = Inl TypeError"

text \<open>The numeric value of a YAML scalar in Python arithmetic (a bool is an int).\<close>

fun num_of :: "cfgval \<Rightarrow> real option" where
  "num_of (CInt i) = Some (real_of_int i)"
| "num_of (CFloat r) = Some r"
| "num_of (CBool b) = Some (if b then 1 else 0)"
| "num_of _ = None"

text \<open>\<^verbatim>\<open>1.0 - v\<close>: a number, or TypeError.\<close>

definition one_minus :: "cfgval \<Rightarrow> exn + real" where
  "one_minus v = (case num_of v of None \<Rightarrow> Inl TypeError | Some r \<Rightarrow> Inr (1 - r))"

text \<open>\<^verbatim>\<open>a / (a + b)\<close>: with two numbers the quotient, or ZeroDivisionError when the
  sum is zero; with anything else the sum or the division raises TypeError.\<close>

definition ratio_of :: "cfgval \<Rightarrow> cfgval \<Rightarrow> exn + real" where
  "ratio_of a b =
     (case num_of a of
        None \<Rightarrow> Inl TypeError
      | Some x \<Rightarrow>
          (case num_of b of
             None \<Rightarrow> Inl TypeError
           | Some y \<Rightarrow> if x + y = 0 then Inl ZeroDivisionError else Inr (x / (x + y))))"

section \<open>The feature extractor\<close>

text \<open>
  \<^verbatim>\<open>featurize\<close> is defined in both scripts, with the same body; one model serves both.
  The calls of librosa and numpy made by \<^verbatim>\<open>featurize\<close>, as parameters. A librosa call
  can raise. A one-dimensional array is a list, a two-dimensional array a list of rows.
  \<open>librosa_load path sr duration\<close> is \<^verbatim>\<open>librosa.load(path, sr=sr, mono=True,
  duration=duration)\<close> and returns the samples and the sample rate.
\<close>

record audio_lib =
  librosa_load :: "string \<Rightarrow> cfgval \<Rightarrow> cfgval \<Rightarrow> exn + (real list \<times> cfgval)"
  librosa_melspectrogram ::
    "real list \<Rightarrow> cfgval \<Rightarrow> cfgval \<Rightarrow> cfgval \<Rightarrow> cfgval \<Rightarrow> exn + real list list"
  librosa_power_to_db :: "real list list \<Rightarrow> exn + real list list"
  librosa_spectral_centroid :: "real list \<Rightarrow> cfgval \<Rightarrow> exn + real list list"
  librosa_spectral_rolloff :: "real list \<Rightarrow> cfgval \<Rightarrow> exn + real list list"
  librosa_zero_crossing_rate :: "real list \<Rightarrow> exn + real list list"
  librosa_rms :: "real list \<Rightarrow> exn + real list list"
  np_mean :: "real list list \<Rightarrow> real"
  np_std :: "real list list \<Rightarrow> real"
  np_percentile :: "real list list \<Rightarrow> real \<Rightarrow> real"
  np_float32 :: "real \<Rightarrow> real"

definition np_zeros :: "nat \<Rightarrow> real list" where
  "np_zeros n = replicate n 0"

text \<open>The loop \<^verbatim>\<open>for arr in (centroid, rolloff, zcr, rms)\<close>: two appends per series.\<close>

definition append_stats :: "audio_lib \<Rightarrow> real list \<Rightarrow> real list list \<Rightarrow> real list" where
  "append_stats L feats arr = (feats @ [np_mean L arr]) @ [np_std L arr]"

definition featurize :: "audio_lib \<Rightarrow> string \<Rightarrow> cfgval \<Rightarrow> exn + real list" where
  "featurize L path cfg =
     bindE (py_getitem cfg ''sample_rate'') (\<lambda>sr0.
     bindE (py_getitem cfg ''max_duration_seconds'') (\<lambda>dur.
     bindE (librosa_load L path sr0 dur) (\<lambda>(y, sr).
     if y = [] then Inr (np_zeros 12)
     else
       bindE (py_getitem cfg ''n_fft'') (\<lambda>n_fft.
       bindE (py_getitem cfg ''hop_length'') (\<lambda>hop_length.
       bindE (py_getitem cfg ''n_mels'') (\<lambda>n_mels.
       bindE (librosa_melspectrogram L y sr n_fft hop_length n_mels) (\<lambda>mel.
       bindE (librosa_power_to_db L (map (map (\<lambda>v. v + 1 / 10 ^ 10)) mel)) (\<lambda>logmel.
       let feats = [np_mean L logmel, np_std L logmel, np_percentile L logmel 10,
                    np_percentile L logmel 50, np_percentile L logmel 90] in
       bindE (librosa_spectral_centroid L y sr) (\<lambda>centroid.
       bindE (librosa_spectral_rolloff L y sr) (\<lambda>rolloff.
       bindE (librosa_zero_crossing_rate L y) (\<lambda>zcr.
       bindE (librosa_rms L y) (\<lambda>rms.
       Inr (map (np_float32 L)
              (foldl (append_stats L) feats [centroid, rolloff, zcr, rms]))))))))))))))"

text \<open>
  A small concrete instance of the audio library, to evaluate the definitions at concrete
  inputs. The theorems below hold for every library; this one only supplies a point where
  their hypotheses are met. \<^verbatim>\<open>empty.wav\<close> decodes to no samples, \<^verbatim>\<open>corrupt.wav\<close> does
  not decode, every other path decodes to four samples. The statistics are rational
  stand-ins: the mean is the mean, the standard deviation is replaced by the number of
  entries and a percentile by its rank.
\<close>

definition demo_load :: "string \<Rightarrow> cfgval \<Rightarrow> cfgval \<Rightarrow> exn + (real list \<times> cfgval)" where
  "demo_load path sr dur =
     (if path = ''empty.wav'' then Inr ([], sr)
      else if path = ''corrupt.wav'' then Inl (OtherError ''cannot decode'')
      else Inr ([real (length path), -1, 1, -1], sr))"

definition demo_audio :: audio_lib where
  "demo_audio = \<lparr>
     librosa_load = demo_load,
     librosa_melspectrogram = (\<lambda>y sr n_fft hop n_mels. Inr [map (\<lambda>v. v * v) y]),
     librosa_power_to_db = (\<lambda>m. Inr m),
     librosa_spectral_centroid = (\<lambda>y sr. Inr [map (\<lambda>v. v + 2) y]),
     librosa_spectral_rolloff = (\<lambda>y sr. Inr [map (\<lambda>v. v + 3) y]),
     librosa_zero_crossing_rate = (\<lambda>y. Inr [map (\<lambda>v. v + 4) y]),
     librosa_rms = (\<lambda>y. Inr [map (\<lambda>v. v + 5) y]),
     np_mean = (\<lambda>m. sum_list (concat m) / real (length (concat m))),
     np_std = (\<lambda>m. real (length (concat m))),
     np_percentile = (\<lambda>m q. q),
     np_float32 = (\<lambda>v. v) \<rparr>"

definition demo_cfg :: cfgval where
  "demo_cfg = CDict [
     (''sample_rate'', CInt 16000), (''max_duration_seconds'', CFloat 5),
     (''n_fft'', CInt 1024), (''hop_length'', CInt 256), (''n_mels'', CInt 64),
     (''train_split'', CFloat (8 / 10)), (''val_split'', CFloat (1 / 10)),
     (''test_split'', CFloat (1 / 10)), (''seed'', CInt 42),
     (''classifier'', CDict [(''C'', CFloat 1), (''max_iter'', CInt 1000),
        (''class_weight'', CStr ''balanced'')])]"

section \<open>The training script: assembling the dataset\<close>

text \<open>
  A row of the manifest, as \<^verbatim>\<open>df.itertuples\<close> yields it for a manifest with the
  columns \<^verbatim>\<open>path\<close> and \<^verbatim>\<open>label\<close>: the path and the label cell. What a cell holds is
  decided by pandas (an integer, a float, NaN for an empty cell, a string), so the cell
  type is a parameter and \<^verbatim>\<open>int(row.label)\<close> is a function \<open>to_int\<close> that can raise.
\<close>

type_synonym 'c row = "string \<times> 'c"

text \<open>The lines the scripts print.\<close>

datatype outline =
    SkipLine string exn
  | ModelLine string
  | ReportLine string
  | AucLine real real

record loop_state =
  ls_X :: "real list list"
  ls_y :: "int list"
  ls_kept_paths :: "string list"
  ls_out :: "outline list"

definition loop_init :: loop_state where
  "loop_init = \<lparr>ls_X = [], ls_y = [], ls_kept_paths = [], ls_out = []\<rparr>"

text \<open>
  One iteration of \<^verbatim>\<open>for row in df.itertuples(index=False)\<close>. The three appends stand
  in one \<^verbatim>\<open>try\<close> block: an exception of \<^verbatim>\<open>featurize\<close> leaves the lists as they are,
  an exception of \<^verbatim>\<open>int(row.label)\<close> comes after \<^verbatim>\<open>X.append\<close> has run. Either way
  the handler prints the skip line and the loop goes on.
\<close>

definition loop_body ::
  "audio_lib \<Rightarrow> ('c \<Rightarrow> exn + int) \<Rightarrow> cfgval \<Rightarrow> loop_state \<Rightarrow> 'c row \<Rightarrow> loop_state" where
  "loop_body L to_int cfg s row =
     (case featurize L (fst row) cfg of
        Inl ex \<Rightarrow> s\<lparr>ls_out := ls_out s @ [SkipLine (fst row) ex]\<rparr>
      | Inr v \<Rightarrow>
          (let s1 = s\<lparr>ls_X := ls_X s @ [v]\<rparr> in
           case to_int (snd row) of
             Inl ex \<Rightarrow> s1\<lparr>ls_out := ls_out s1 @ [SkipLine (fst row) ex]\<rparr>
           | Inr n \<Rightarrow>
               s1\<lparr>ls_y := ls_y s1 @ [n],
                  ls_kept_paths := ls_kept_paths s1 @ [fst row]\<rparr>))"

definition main_loop ::
  "audio_lib \<Rightarrow> ('c \<Rightarrow> exn + int) \<Rightarrow> cfgval \<Rightarrow> 'c row list \<Rightarrow> loop_state" where
  "main_loop L to_int cfg rows = foldl (loop_body L to_int cfg) loop_init rows"

text \<open>
  A label cell of a numeric column and Python's \<^verbatim>\<open>int\<close> on it: pandas reads an empty
  cell as NaN, and \<^verbatim>\<open>int(float('nan'))\<close> raises ValueError.
\<close>

datatype cell = IntCell int | NaNCell

fun py_int :: "cell \<Rightarrow> exn + int" where
  "py_int (IntCell n) = Inr n"
| "py_int NaNCell = Inl (ValueError ''cannot convert float NaN to integer'')"

section \<open>The training script: stacking and the class check\<close>

text \<open>\<^verbatim>\<open>np.vstack\<close> of a list of one-dimensional arrays: the list must not be empty and
  the arrays must have one length.\<close>

definition np_vstack :: "real list list \<Rightarrow> exn + real list list" where
  "np_vstack X =
     (if X = [] then Inl (ValueError ''need at least one array to concatenate'')
      else if (\<exists>v \<in> set X. length v \<noteq> length (hd X))
        then Inl (ValueError ''all the input array dimensions except for the concatenation axis must match exactly'')
      else Inr X)"

text \<open>\<^verbatim>\<open>np.array(y, dtype=np.int64)\<close>: a Python int outside 64 bits raises.\<close>

definition np_array_int64 :: "int list \<Rightarrow> exn + int list" where
  "np_array_int64 y =
     (if (\<exists>n \<in> set y. n < - (2 ^ 63) \<or> 2 ^ 63 \<le> n) then Inl OverflowError else Inr y)"

definition np_unique :: "int list \<Rightarrow> int list" where
  "np_unique y = sort (remdups y)"

definition insufficient_classes :: exn where
  "insufficient_classes =
     RuntimeError ''Training requires at least 2 classes. Add non-piano clips under ml/data/raw/non_piano.''"

definition main_prepare :: "real list list \<Rightarrow> int list \<Rightarrow> exn + (real list list \<times> int list)" where
  "main_prepare X0 y0 =
     bindE (np_vstack X0) (\<lambda>X.
     bindE (np_array_int64 y0) (\<lambda>y.
     if length (np_unique y) < 2 then Inl insufficient_classes else Inr (X, y)))"

section \<open>The training script: the split\<close>

text \<open>
  The calls of scikit-learn, as parameters; \<open>'m\<close> is the type of a fitted model and
  \<open>'r\<close> of a classification report.
  \<open>sk_split_indices y test_size random_state\<close> is the stratified shuffle split that
  \<^verbatim>\<open>train_test_split(..., stratify=y)\<close> draws: it reads the labels (and with them the
  number of rows), the test size and the seed, never the feature rows, and returns the
  row numbers of the train part and of the test part, or raises.
  \<open>sk_fit C max_iter class_weight X y\<close> is \<^verbatim>\<open>LogisticRegression(...).fit(X, y)\<close>.
\<close>

record ('m, 'r) sk_lib =
  sk_split_indices :: "int list \<Rightarrow> real \<Rightarrow> cfgval \<Rightarrow> exn + (nat list \<times> nat list)"
  sk_fit :: "cfgval \<Rightarrow> cfgval \<Rightarrow> cfgval \<Rightarrow> real list list \<Rightarrow> int list \<Rightarrow> exn + 'm"
  sk_predict_proba :: "'m \<Rightarrow> real list list \<Rightarrow> exn + real list list"
  sk_classification_report :: "int list \<Rightarrow> int list \<Rightarrow> exn + 'r"
  sk_roc_auc_score :: "int list \<Rightarrow> real list \<Rightarrow> exn + real"

text \<open>Indexing an array with a list of row numbers; a number out of range raises.\<close>

definition take_rows :: "'a list \<Rightarrow> nat list \<Rightarrow> exn + 'a list" where
  "take_rows xs idx =
     (if (\<exists>i \<in> set idx. length xs \<le> i) then Inl IndexError else Inr (map ((!) xs) idx))"

text \<open>\<^verbatim>\<open>train_test_split(X, y, test_size=..., random_state=..., stratify=y)\<close>: the
  arrays must have one length; both are indexed with the same row numbers.\<close>

definition train_test_split ::
  "('m, 'r) sk_lib \<Rightarrow> real list list \<Rightarrow> int list \<Rightarrow> real \<Rightarrow> cfgval \<Rightarrow>
     exn + (real list list \<times> real list list \<times> int list \<times> int list)" where
  "train_test_split S X y test_size seed =
     (if length X \<noteq> length y
        then Inl (ValueError ''Found input variables with inconsistent numbers of samples'')
      else
        bindE (sk_split_indices S y test_size seed) (\<lambda>(tr, te).
        bindE (take_rows X tr) (\<lambda>X_train.
        bindE (take_rows X te) (\<lambda>X_test.
        bindE (take_rows y tr) (\<lambda>y_train.
        bindE (take_rows y te) (\<lambda>y_test.
        Inr (X_train, X_test, y_train, y_test)))))))"

record split_result =
  X_train :: "real list list"
  y_train :: "int list"
  X_val :: "real list list"
  y_val :: "int list"
  X_test :: "real list list"
  y_test :: "int list"

definition main_split ::
  "('m, 'r) sk_lib \<Rightarrow> cfgval \<Rightarrow> real list list \<Rightarrow> int list \<Rightarrow> exn + split_result" where
  "main_split S cfg X y =
     bindE (py_getitem cfg ''train_split'') (\<lambda>train_split.
     bindE (one_minus train_split) (\<lambda>test_size.
     bindE (py_getitem cfg ''seed'') (\<lambda>seed.
     bindE (train_test_split S X y test_size seed) (\<lambda>(Xtr, X_temp, ytr, y_temp).
     bindE (py_getitem cfg ''val_split'') (\<lambda>val_split.
     bindE (py_getitem cfg ''test_split'') (\<lambda>test_split.
     bindE (ratio_of val_split test_split) (\<lambda>val_ratio.
     bindE (py_getitem cfg ''seed'') (\<lambda>seed2.
     bindE (train_test_split S X_temp y_temp (1 - val_ratio) seed2) (\<lambda>(Xv, Xte, yv, yte).
     Inr \<lparr>X_train = Xtr, y_train = ytr, X_val = Xv, y_val = yv,
          X_test = Xte, y_test = yte\<rparr>)))))))))"

section \<open>The training script: fitting, evaluation and the artifact\<close>

text \<open>\<^verbatim>\<open>(prob >= 0.5).astype(int)\<close> on one entry, and \<^verbatim>\<open>int(p >= 0.5)\<close>.\<close>

definition ge_half :: "real \<Rightarrow> int" where
  "ge_half p = (if 1 / 2 \<le> p then 1 else 0)"

text \<open>\<^verbatim>\<open>P[:, 1]\<close> and \<^verbatim>\<open>P[0, 1]\<close> on a two-dimensional array.\<close>

definition column1 :: "real list list \<Rightarrow> exn + real list" where
  "column1 P =
     (if (\<exists>r \<in> set P. length r < 2) then Inl IndexError else Inr (map (\<lambda>r. r ! 1) P))"

definition entry01 :: "real list list \<Rightarrow> exn + real" where
  "entry01 P =
     (case P of
        [] \<Rightarrow> Inl IndexError
      | r # _ \<Rightarrow> if length r < 2 then Inl IndexError else Inr (r ! 1))"

record 'r metrics =
  val_report :: 'r
  test_report :: 'r
  val_auc :: real
  test_auc :: real
  num_samples :: nat

record ('m, 'r) eval_result =
  er_model :: 'm
  er_val_prob :: "real list"
  er_test_prob :: "real list"
  er_val_pred :: "int list"
  er_test_pred :: "int list"
  er_metrics :: "'r metrics"

definition main_fit_eval ::
  "('m, 'r) sk_lib \<Rightarrow> cfgval \<Rightarrow> split_result \<Rightarrow> nat \<Rightarrow> exn + ('m, 'r) eval_result" where
  "main_fit_eval S cfg sp n =
     bindE (py_getitem cfg ''classifier'') (\<lambda>cl1.
     bindE (py_getitem cl1 ''C'') (\<lambda>c.
     bindE (py_getitem cfg ''classifier'') (\<lambda>cl2.
     bindE (py_getitem cl2 ''max_iter'') (\<lambda>max_iter.
     bindE (py_getitem cfg ''classifier'') (\<lambda>cl3.
     bindE (py_getitem cl3 ''class_weight'') (\<lambda>class_weight.
     bindE (sk_fit S c max_iter class_weight (X_train sp) (y_train sp)) (\<lambda>model.
     bindE (sk_predict_proba S model (X_val sp)) (\<lambda>Pv.
     bindE (column1 Pv) (\<lambda>val_prob.
     bindE (sk_predict_proba S model (X_test sp)) (\<lambda>Pt.
     bindE (column1 Pt) (\<lambda>test_prob.
     let val_pred = map ge_half val_prob; test_pred = map ge_half test_prob in
     bindE (sk_classification_report S (y_val sp) val_pred) (\<lambda>vr.
     bindE (sk_classification_report S (y_test sp) test_pred) (\<lambda>tr.
     bindE (sk_roc_auc_score S (y_val sp) val_prob) (\<lambda>va.
     bindE (sk_roc_auc_score S (y_test sp) test_prob) (\<lambda>ta.
     Inr \<lparr>er_model = model, er_val_prob = val_prob, er_test_prob = test_prob,
          er_val_pred = val_pred, er_test_pred = test_pred,
          er_metrics = \<lparr>val_report = vr, test_report = tr, val_auc = va, test_auc = ta,
                         num_samples = n\<rparr>\<rparr>)))))))))))))))"

text \<open>
  A Python object that joblib writes or reads: a fitted model, a configuration, or a
  dictionary of objects. joblib itself is a parameter: \<open>joblib_dump\<close> gives the bytes
  written for an object, \<open>joblib_load\<close> reads bytes back or raises.
\<close>

datatype 'm pyobj =
    PModel 'm
  | PConfig cfgval
  | PDict "(string \<times> 'm pyobj) list"

record ('m, 'b) joblib_lib =
  joblib_dump :: "'m pyobj \<Rightarrow> 'b"
  joblib_load :: "'b \<Rightarrow> exn + 'm pyobj"

text \<open>
  The files the two scripts write and read, by path (a path names one file; failures of
  the file system itself are not modelled): a joblib artifact, or the JSON report.
\<close>

datatype ('b, 'r) stored = Artifact 'b | ReportFile "'r metrics"

type_synonym ('b, 'r) files = "string \<Rightarrow> ('b, 'r) stored option"

text \<open>Lines 109 to 115: the artifact holds the model and the whole configuration; the
  report is written after the artifact.\<close>

definition main_save ::
  "('m, 'b) joblib_lib \<Rightarrow> string \<Rightarrow> string \<Rightarrow> cfgval \<Rightarrow> ('m, 'r) eval_result \<Rightarrow>
     ('b, 'r) files \<Rightarrow> ('b, 'r) files" where
  "main_save J model_out report_out cfg ev fs =
     (let fs1 = fs(model_out \<mapsto>
                  Artifact (joblib_dump J (PDict [(''model'', PModel (er_model ev)),
                                                  (''config'', PConfig cfg)])))
      in fs1(report_out \<mapsto> ReportFile (er_metrics ev)))"

text \<open>
  \<^verbatim>\<open>main\<close> of \<^verbatim>\<open>train_baseline.py\<close>, after the configuration and the manifest have been
  read: what it prints, and the files it leaves or the exception it ends with.
\<close>

definition main_train ::
  "('m, 'b) joblib_lib \<Rightarrow> ('m, 'r) sk_lib \<Rightarrow> audio_lib \<Rightarrow> ('c \<Rightarrow> exn + int) \<Rightarrow>
     string \<Rightarrow> string \<Rightarrow> cfgval \<Rightarrow> 'c row list \<Rightarrow> ('b, 'r) files \<Rightarrow>
     outline list \<times> (exn + ('b, 'r) files)" where
  "main_train J S L to_int model_out report_out cfg rows fs =
     (let st = main_loop L to_int cfg rows in
      case bindE (main_prepare (ls_X st) (ls_y st)) (\<lambda>(X, y).
           bindE (main_split S cfg X y) (\<lambda>sp.
           main_fit_eval S cfg sp (length y))) of
        Inl ex \<Rightarrow> (ls_out st, Inl ex)
      | Inr ev \<Rightarrow>
          (ls_out st @ [ModelLine model_out, ReportLine report_out,
                        AucLine (val_auc (er_metrics ev)) (test_auc (er_metrics ev))],
           Inr (main_save J model_out report_out cfg ev fs)))"

section \<open>The prediction script\<close>

text \<open>\<^verbatim>\<open>joblib.load(path)\<close>, \<^verbatim>\<open>pack["model"]\<close> and \<^verbatim>\<open>model.predict_proba(x)\<close> on
  whatever object was loaded.\<close>

definition load_file :: "('m, 'b) joblib_lib \<Rightarrow> ('b, 'r) files \<Rightarrow> string \<Rightarrow> exn + 'm pyobj" where
  "load_file J fs path =
     (case fs path of
        None \<Rightarrow> Inl (OtherError ''FileNotFoundError'')
      | Some (Artifact b) \<Rightarrow> joblib_load J b
      | Some (ReportFile m) \<Rightarrow> Inl (OtherError ''not a joblib artifact''))"

fun obj_getitem :: "'m pyobj \<Rightarrow> string \<Rightarrow> exn + 'm pyobj" where
  "obj_getitem (PDict kvs) k =
     (case map_of kvs k of None \<Rightarrow> Inl (KeyError k) | Some v \<Rightarrow> Inr v)"
| "obj_getitem (PConfig c) k =
     (case py_getitem c k of Inl ex \<Rightarrow> Inl ex | Inr v \<Rightarrow> Inr (PConfig v))"
| "obj_getitem (PModel m) k = Inl TypeError"

fun obj_predict_proba ::
  "('m, 'r) sk_lib \<Rightarrow> 'm pyobj \<Rightarrow> real list list \<Rightarrow> exn + real list list" where
  "obj_predict_proba S (PModel m) X = sk_predict_proba S m X"
| "obj_predict_proba S _ X = Inl (OtherError ''AttributeError'')"

record prediction =
  pr_file :: string
  pr_probability :: real
  pr_prediction :: string

text \<open>
  \<^verbatim>\<open>main\<close> of \<^verbatim>\<open>predict_file.py\<close>, after the configuration named on the command line
  has been read: \<open>cfg\<close> is that configuration. The configuration inside the artifact is
  never looked up.
\<close>

definition main_predict ::
  "('m, 'b) joblib_lib \<Rightarrow> ('m, 'r) sk_lib \<Rightarrow> audio_lib \<Rightarrow> ('b, 'r) files \<Rightarrow>
     string \<Rightarrow> string \<Rightarrow> cfgval \<Rightarrow> exn + prediction" where
  "main_predict J S L fs audio_path model_path cfg =
     bindE (load_file J fs model_path) (\<lambda>pack.
     bindE (obj_getitem pack ''model'') (\<lambda>model.
     bindE (featurize L audio_path cfg) (\<lambda>x.
     bindE (obj_predict_proba S model [x]) (\<lambda>P.
     bindE (entry01 P) (\<lambda>p.
     let pred = ge_half p in
     Inr \<lparr>pr_file = audio_path, pr_probability = p,
          pr_prediction = (if pred \<noteq> 0 then ''piano'' else ''non_piano'')\<rparr>)))))"

section \<open>What the library calls are assumed to do\<close>

text \<open>
  The split of scikit-learn returns a partition of the row numbers: every row number
  below the number of labels occurs once, in the train part or in the test part.
\<close>

definition index_partition ::
  "(int list \<Rightarrow> real \<Rightarrow> cfgval \<Rightarrow> exn + (nat list \<times> nat list)) \<Rightarrow> bool" where
  "index_partition split \<longleftrightarrow>
     (\<forall>y test_size seed tr te.
        split y test_size seed = Inr (tr, te) \<longrightarrow>
        distinct (tr @ te) \<and> set (tr @ te) = {..<length y})"


section \<open>Concrete instances of the other libraries\<close>

text \<open>
  As for the audio library: stand-ins at which the definitions can be evaluated. The
  split keeps the order of the rows and puts the last \<open>\<lceil>test_size * n\<rceil>\<close> of them in
  the test part (it raises when a part would be empty); a fitted model is the constant
  probability it predicts; a report is the number of correct predictions; joblib is the
  identity on objects.
\<close>

definition demo_split :: "int list \<Rightarrow> real \<Rightarrow> cfgval \<Rightarrow> exn + (nat list \<times> nat list)" where
  "demo_split y test_size seed =
     (let n = length y; k = nat \<lceil>test_size * real n\<rceil> in
      if k = 0 \<or> n \<le> k then Inl (ValueError ''the resulting train or test set will be empty'')
      else Inr ([0..<n - k], [n - k..<n]))"

definition demo_sk :: "(real, nat) sk_lib" where
  "demo_sk = \<lparr>
     sk_split_indices = demo_split,
     sk_fit = (\<lambda>c max_iter class_weight X y. Inr (1 / 2)),
     sk_predict_proba = (\<lambda>m X. Inr (map (\<lambda>x. [1 - m, m]) X)),
     sk_classification_report = (\<lambda>y p. Inr (length (filter (\<lambda>(a, b). a = b) (zip y p)))),
     sk_roc_auc_score = (\<lambda>y p. Inr (1 / 2)) \<rparr>"

definition demo_joblib :: "(real, real pyobj) joblib_lib" where
  "demo_joblib = \<lparr> joblib_dump = (\<lambda>obj. obj), joblib_load = (\<lambda>b. Inr b) \<rparr>"

definition demo_cfg2 :: cfgval where
  "demo_cfg2 = CDict [
     (''sample_rate'', CInt 16000), (''max_duration_seconds'', CFloat 5),
     (''n_fft'', CInt 1024), (''hop_length'', CInt 256), (''n_mels'', CInt 64),
     (''train_split'', CFloat (1 / 2)), (''val_split'', CFloat (1 / 4)),
     (''test_split'', CFloat (1 / 4)), (''seed'', CInt 42),
     (''classifier'', CDict [(''C'', CFloat 1), (''max_iter'', CInt 1000),
        (''class_weight'', CStr ''balanced'')])]"

definition demo_files :: "(real pyobj, nat) files" where
  "demo_files = Map.empty"

text \<open>The files after a training run of the stand-in libraries, with a chosen stored
  configuration.\<close>

definition demo_artifact :: "cfgval \<Rightarrow> (real pyobj, nat) files" where
  "demo_artifact stored =
     demo_files(''m.joblib'' \<mapsto>
       Artifact (PDict [(''model'', PModel (1 / 2)), (''config'', PConfig stored)]))"

section \<open>What one manifest row contributes\<close>

text \<open>
  A row is featurized when \<^verbatim>\<open>featurize\<close> returns for its path. The four functions
  below say what one row adds to the feature list, the label list, the kept paths and the
  printed lines; they are used to state what the loop computes.
\<close>

definition featurized :: "audio_lib \<Rightarrow> cfgval \<Rightarrow> 'c row \<Rightarrow> bool" where
  "featurized L cfg row = (case featurize L (fst row) cfg of Inl ex \<Rightarrow> False | Inr v \<Rightarrow> True)"

definition row_X :: "audio_lib \<Rightarrow> cfgval \<Rightarrow> 'c row \<Rightarrow> real list list" where
  "row_X L cfg row = (case featurize L (fst row) cfg of Inl ex \<Rightarrow> [] | Inr v \<Rightarrow> [v])"

definition row_y :: "audio_lib \<Rightarrow> ('c \<Rightarrow> exn + int) \<Rightarrow> cfgval \<Rightarrow> 'c row \<Rightarrow> int list" where
  "row_y L to_int cfg row =
     (case featurize L (fst row) cfg of
        Inl ex \<Rightarrow> []
      | Inr v \<Rightarrow> (case to_int (snd row) of Inl ex \<Rightarrow> [] | Inr n \<Rightarrow> [n]))"

definition row_kept :: "audio_lib \<Rightarrow> ('c \<Rightarrow> exn + int) \<Rightarrow> cfgval \<Rightarrow> 'c row \<Rightarrow> string list" where
  "row_kept L to_int cfg row =
     (case featurize L (fst row) cfg of
        Inl ex \<Rightarrow> []
      | Inr v \<Rightarrow> (case to_int (snd row) of Inl ex \<Rightarrow> [] | Inr n \<Rightarrow> [fst row]))"

definition row_out :: "audio_lib \<Rightarrow> ('c \<Rightarrow> exn + int) \<Rightarrow> cfgval \<Rightarrow> 'c row \<Rightarrow> outline list" where
  "row_out L to_int cfg row =
     (case featurize L (fst row) cfg of
        Inl ex \<Rightarrow> [SkipLine (fst row) ex]
      | Inr v \<Rightarrow> (case to_int (snd row) of Inl ex \<Rightarrow> [SkipLine (fst row) ex] | Inr n \<Rightarrow> []))"

section \<open>Facts about the feature extractor\<close>

lemma bindE_Inr [simp]: "bindE (Inr x) f = f x"
  by (simp add: bindE_def)

lemma bindE_Inl [simp]: "bindE (Inl e) f = Inl e"
  by (simp add: bindE_def)

lemma bindE_eq_Inr: "bindE m f = Inr r \<longleftrightarrow> (\<exists>x. m = Inr x \<and> f x = Inr r)"
  by (cases m) simp_all

lemma demo_cfg_keys:
  "py_getitem demo_cfg ''sample_rate'' = Inr (CInt 16000)"
  "py_getitem demo_cfg ''max_duration_seconds'' = Inr (CFloat 5)"
  "py_getitem demo_cfg ''n_fft'' = Inr (CInt 1024)"
  "py_getitem demo_cfg ''hop_length'' = Inr (CInt 256)"
  "py_getitem demo_cfg ''n_mels'' = Inr (CInt 64)"
  by (simp_all add: demo_cfg_def)

lemma featurize_zero_length:
  assumes "py_getitem cfg ''sample_rate'' = Inr sr0"
    and "py_getitem cfg ''max_duration_seconds'' = Inr dur"
    and "librosa_load L path sr0 dur = Inr ([], sr)"
  shows "featurize L path cfg = Inr (replicate 12 0)"
  using assms by (simp add: featurize_def np_zeros_def)

lemma featurize_length:
  assumes "featurize L path cfg = Inr v"
  shows "length v = 12 \<or> length v = 13"
  using assms
  by (auto simp: featurize_def bindE_eq_Inr np_zeros_def append_stats_def Let_def
      split: if_splits)

text \<open>
  Claim C1. The claim: for a signal of no samples \<^verbatim>\<open>featurize\<close> returns the all-zero
  vector of length 13, so that the length is 13 for every input. The code returns
  \<^verbatim>\<open>np.zeros(12)\<close>: for the file \<^verbatim>\<open>empty.wav\<close>, which decodes to no samples, the
  result is the all-zero vector of length 12, which is not the vector of 13 zeros, while
  a file with samples gets 13 entries. The lemma
  \<open>featurize_zero_length\<close> shows the same for every library and every configuration.
\<close>

theorem featurize_empty_signal_has_12_entries:
  "featurize demo_audio ''empty.wav'' demo_cfg = Inr (replicate 12 0) \<and>
   length (replicate 12 (0::real)) = 12 \<and>
   featurize demo_audio ''empty.wav'' demo_cfg \<noteq> Inr (replicate 13 0)"
  by (simp add: featurize_def demo_cfg_keys demo_audio_def demo_load_def np_zeros_def)

text \<open>
  Claim C2. For a signal with at least one sample, when the configuration has the keys
  read and no library call raises, \<^verbatim>\<open>featurize\<close> returns 13 entries, each passed
  through the conversion to 32-bit floats, in this order: mean, standard deviation, 10th,
  50th and 90th percentile of the log-mel matrix (the decibel conversion of the mel
  spectrogram plus \<open>1e-10\<close>), then mean and standard deviation of the spectral centroid,
  of the spectral rolloff, of the zero-crossing rate and of the RMS energy.
\<close>

theorem featurize_order:
  assumes "py_getitem cfg ''sample_rate'' = Inr sr0"
    and "py_getitem cfg ''max_duration_seconds'' = Inr dur"
    and "librosa_load L path sr0 dur = Inr (y, sr)"
    and "y \<noteq> []"
    and "py_getitem cfg ''n_fft'' = Inr n_fft"
    and "py_getitem cfg ''hop_length'' = Inr hop_length"
    and "py_getitem cfg ''n_mels'' = Inr n_mels"
    and "librosa_melspectrogram L y sr n_fft hop_length n_mels = Inr mel"
    and "librosa_power_to_db L (map (map (\<lambda>v. v + 1 / 10 ^ 10)) mel) = Inr logmel"
    and "librosa_spectral_centroid L y sr = Inr centroid"
    and "librosa_spectral_rolloff L y sr = Inr rolloff"
    and "librosa_zero_crossing_rate L y = Inr zcr"
    and "librosa_rms L y = Inr rms"
  shows "\<exists>v. featurize L path cfg = Inr v \<and> length v = 13 \<and>
           v = map (np_float32 L)
             [np_mean L logmel, np_std L logmel,
              np_percentile L logmel 10, np_percentile L logmel 50, np_percentile L logmel 90,
              np_mean L centroid, np_std L centroid,
              np_mean L rolloff, np_std L rolloff,
              np_mean L zcr, np_std L zcr,
              np_mean L rms, np_std L rms]"
  using assms by (simp add: featurize_def append_stats_def)

theorem featurize_order_witness:
  "featurize demo_audio ''a.wav'' demo_cfg =
     Inr [70000000001 / 10000000000, 4, 10, 50, 90, 3, 4, 4, 4, 5, 4, 6, 4]"
  using featurize_order [of demo_cfg "CInt 16000" "CFloat 5" demo_audio "''a.wav''"
      "[5, -1, 1, -1]" "CInt 16000" "CInt 1024" "CInt 256" "CInt 64"
      "[[25, 1, 1, 1]]" "[[25 + 1 / 10 ^ 10, 1 + 1 / 10 ^ 10, 1 + 1 / 10 ^ 10, 1 + 1 / 10 ^ 10]]"
      "[[7, 1, 3, 1]]" "[[8, 2, 4, 2]]" "[[9, 3, 5, 3]]" "[[10, 4, 6, 4]]"]
  by (simp add: demo_cfg_keys demo_audio_def demo_load_def)

section \<open>Facts about the loop over the manifest\<close>

lemma loop_body_fields:
  "ls_X (loop_body L ti cfg s r) = ls_X s @ row_X L cfg r"
  "ls_y (loop_body L ti cfg s r) = ls_y s @ row_y L ti cfg r"
  "ls_kept_paths (loop_body L ti cfg s r) = ls_kept_paths s @ row_kept L ti cfg r"
  "ls_out (loop_body L ti cfg s r) = ls_out s @ row_out L ti cfg r"
  by (simp_all add: loop_body_def row_X_def row_y_def row_kept_def row_out_def Let_def
      split: sum.splits)

lemma foldl_loop_fields:
  "ls_X (foldl (loop_body L ti cfg) s rows) = ls_X s @ concat (map (row_X L cfg) rows)"
  "ls_y (foldl (loop_body L ti cfg) s rows) = ls_y s @ concat (map (row_y L ti cfg) rows)"
  "ls_kept_paths (foldl (loop_body L ti cfg) s rows) =
     ls_kept_paths s @ concat (map (row_kept L ti cfg) rows)"
  "ls_out (foldl (loop_body L ti cfg) s rows) = ls_out s @ concat (map (row_out L ti cfg) rows)"
  by (induction rows arbitrary: s; simp add: loop_body_fields)+

lemma main_loop_fields:
  "ls_X (main_loop L ti cfg rows) = concat (map (row_X L cfg) rows)"
  "ls_y (main_loop L ti cfg rows) = concat (map (row_y L ti cfg) rows)"
  "ls_kept_paths (main_loop L ti cfg rows) = concat (map (row_kept L ti cfg) rows)"
  "ls_out (main_loop L ti cfg rows) = concat (map (row_out L ti cfg) rows)"
  by (simp_all add: main_loop_def foldl_loop_fields loop_init_def)








lemma rows_all_converted:
  assumes "\<forall>r \<in> set rows. featurized L cfg r \<longrightarrow> (\<exists>n. ti (snd r) = Inr n)"
  shows "map Inr (concat (map (row_y L ti cfg) rows)) =
           map (\<lambda>r. ti (snd r)) (filter (featurized L cfg) rows)"
    and "concat (map (row_kept L ti cfg) rows) = map fst (filter (featurized L cfg) rows)"
    and "length (concat (map (row_X L cfg) rows)) = length (concat (map (row_y L ti cfg) rows))"
  using assms
  by (induction rows; fastforce simp: row_X_def row_y_def row_kept_def featurized_def
      split: sum.splits)+

text \<open>When no label conversion raises, the two lists have one length after the loop.\<close>

lemma loop_aligned_when_labels_convert:
  assumes "\<forall>r \<in> set rows. featurized L cfg r \<longrightarrow> (\<exists>n. ti (snd r) = Inr n)"
  shows "length (ls_X (main_loop L ti cfg rows)) = length (ls_y (main_loop L ti cfg rows))"
  using rows_all_converted(3) [OF assms] by (simp add: main_loop_fields)

lemma demo_cfg2_keys:
  "py_getitem demo_cfg2 ''sample_rate'' = Inr (CInt 16000)"
  "py_getitem demo_cfg2 ''max_duration_seconds'' = Inr (CFloat 5)"
  "py_getitem demo_cfg2 ''n_fft'' = Inr (CInt 1024)"
  "py_getitem demo_cfg2 ''hop_length'' = Inr (CInt 256)"
  "py_getitem demo_cfg2 ''n_mels'' = Inr (CInt 64)"
  "py_getitem demo_cfg2 ''train_split'' = Inr (CFloat (1 / 2))"
  "py_getitem demo_cfg2 ''val_split'' = Inr (CFloat (1 / 4))"
  "py_getitem demo_cfg2 ''test_split'' = Inr (CFloat (1 / 4))"
  "py_getitem demo_cfg2 ''seed'' = Inr (CInt 42)"
  "py_getitem demo_cfg2 ''classifier'' =
     Inr (CDict [(''C'', CFloat 1), (''max_iter'', CInt 1000),
                 (''class_weight'', CStr ''balanced'')])"
  by (simp_all add: demo_cfg2_def)

lemma demo_featurize_corrupt:
  "featurize demo_audio ''corrupt.wav'' demo_cfg2 = Inl (OtherError ''cannot decode'')"
  by (simp add: featurize_def demo_cfg2_keys demo_audio_def demo_load_def)






text \<open>
  Claim C10. The claim: for every row either both the feature vector and the label are
  appended or neither, so the two lists stay aligned. In the code \<^verbatim>\<open>X.append\<close> runs
  before \<^verbatim>\<open>int(row.label)\<close> is evaluated: a row whose file decodes and whose label cell
  is empty (NaN) leaves its vector in the feature list, gets no label and no kept path,
  and is reported as skipped. With the manifest below the feature list has three rows and
  the label list two, and the second feature row stands against the label of the third
  file.
\<close>

theorem label_failure_keeps_feature_row:
  "length (ls_X (main_loop demo_audio py_int demo_cfg2
       [(''a.wav'', IntCell 1), (''bb.wav'', NaNCell), (''ccc.wav'', IntCell 0)])) = 3
   \<and> ls_y (main_loop demo_audio py_int demo_cfg2
       [(''a.wav'', IntCell 1), (''bb.wav'', NaNCell), (''ccc.wav'', IntCell 0)]) = [1, 0]
   \<and> ls_kept_paths (main_loop demo_audio py_int demo_cfg2
       [(''a.wav'', IntCell 1), (''bb.wav'', NaNCell), (''ccc.wav'', IntCell 0)])
       = [''a.wav'', ''ccc.wav'']
   \<and> ls_out (main_loop demo_audio py_int demo_cfg2
       [(''a.wav'', IntCell 1), (''bb.wav'', NaNCell), (''ccc.wav'', IntCell 0)])
       = [SkipLine ''bb.wav'' (ValueError ''cannot convert float NaN to integer'')]"
  by (simp add: main_loop_def loop_body_def loop_init_def featurize_def demo_cfg2_keys
      demo_audio_def demo_load_def append_stats_def Let_def)

section \<open>Facts about stacking and the class check\<close>

lemma length_np_unique: "length (np_unique y) = card (set y)"
  by (simp add: np_unique_def length_remdups_card_conv)

lemma main_prepare_stacked:
  assumes "np_vstack X0 = Inr X" and "np_array_int64 y0 = Inr y"
  shows "main_prepare X0 y0 =
           (if card (set y0) < 2 then Inl insufficient_classes else Inr (X0, y0))"
proof -
  have "X = X0" using assms(1) by (auto simp: np_vstack_def split: if_splits)
  moreover have "y = y0" using assms(2) by (auto simp: np_array_int64_def split: if_splits)
  ultimately show ?thesis
    using assms by (simp add: main_prepare_def length_np_unique)
qed

text \<open>
  Claim C5, as amended. The class check comes after the feature rows have been stacked
  and the labels converted to an int64 array. When both succeed (at least one row was
  kept, the kept vectors have one length, the labels fit in 64 bits): the check raises
  the RuntimeError "Training requires at least 2 classes" exactly when fewer than two
  distinct labels were kept; the run then ends with that error whatever the split and the
  fit of the library would do, so before either is attempted; and with two distinct
  labels the check passes and the run goes on to the split.
\<close>

theorem class_check_after_stacking:
  fixes rows :: "'c row list"
  assumes "np_vstack (ls_X (main_loop L ti cfg rows)) = Inr X"
    and "np_array_int64 (ls_y (main_loop L ti cfg rows)) = Inr y"
  shows "(main_prepare (ls_X (main_loop L ti cfg rows)) (ls_y (main_loop L ti cfg rows))
            = Inl insufficient_classes
          \<longleftrightarrow> card (set (ls_y (main_loop L ti cfg rows))) < 2)
       \<and> (card (set (ls_y (main_loop L ti cfg rows))) < 2 \<longrightarrow>
            snd (main_train J S L ti mo ro cfg rows fs) = Inl insufficient_classes)
       \<and> (2 \<le> card (set (ls_y (main_loop L ti cfg rows))) \<longrightarrow>
            main_prepare (ls_X (main_loop L ti cfg rows)) (ls_y (main_loop L ti cfg rows))
              = Inr (X, y)
          \<and> snd (main_train J S L ti mo ro cfg rows fs) =
              bindE (bindE (main_split S cfg X y) (\<lambda>sp. main_fit_eval S cfg sp (length y)))
                (\<lambda>ev. Inr (main_save J mo ro cfg ev fs)))"
proof -
  let ?X0 = "ls_X (main_loop L ti cfg rows)" and ?y0 = "ls_y (main_loop L ti cfg rows)"
  have X: "X = ?X0" using assms(1) by (auto simp: np_vstack_def split: if_splits)
  have y: "y = ?y0" using assms(2) by (auto simp: np_array_int64_def split: if_splits)
  have prep: "main_prepare ?X0 ?y0 =
      (if card (set ?y0) < 2 then Inl insufficient_classes else Inr (?X0, ?y0))"
    using assms by (rule main_prepare_stacked)
  have snd_eq: "snd (main_train J S L ti mo ro cfg rows fs) =
     bindE (bindE (main_prepare ?X0 ?y0)
              (\<lambda>(X, y). bindE (main_split S cfg X y) (\<lambda>sp. main_fit_eval S cfg sp (length y))))
       (\<lambda>ev. Inr (main_save J mo ro cfg ev fs))"
    by (simp add: main_train_def Let_def bindE_def split: sum.splits)
  show ?thesis
    by (simp add: prep snd_eq X y)
qed

theorem class_check_after_stacking_witness:
  "snd (main_train demo_joblib demo_sk demo_audio py_int ''m.joblib'' ''r.json'' demo_cfg2
          [(''a.wav'', IntCell 1), (''bb.wav'', IntCell 1)] demo_files)
     = Inl insufficient_classes
   \<and> main_prepare
        (ls_X (main_loop demo_audio py_int demo_cfg2
            [(''a.wav'', IntCell 0), (''bb.wav'', IntCell 1)]))
        (ls_y (main_loop demo_audio py_int demo_cfg2
            [(''a.wav'', IntCell 0), (''bb.wav'', IntCell 1)]))
     \<noteq> Inl insufficient_classes"
  using class_check_after_stacking [of demo_audio py_int demo_cfg2
      "[(''a.wav'', IntCell 1), (''bb.wav'', IntCell 1)]"
      "ls_X (main_loop demo_audio py_int demo_cfg2 [(''a.wav'', IntCell 1), (''bb.wav'', IntCell 1)])"
      "ls_y (main_loop demo_audio py_int demo_cfg2 [(''a.wav'', IntCell 1), (''bb.wav'', IntCell 1)])"
      demo_joblib demo_sk "''m.joblib''" "''r.json''" demo_files]
    class_check_after_stacking [of demo_audio py_int demo_cfg2
      "[(''a.wav'', IntCell 0), (''bb.wav'', IntCell 1)]"
      "ls_X (main_loop demo_audio py_int demo_cfg2 [(''a.wav'', IntCell 0), (''bb.wav'', IntCell 1)])"
      "ls_y (main_loop demo_audio py_int demo_cfg2 [(''a.wav'', IntCell 0), (''bb.wav'', IntCell 1)])"
      demo_joblib demo_sk "''m.joblib''" "''r.json''" demo_files]
  by (simp add: main_loop_def loop_body_def loop_init_def featurize_def demo_cfg2_keys
      demo_audio_def demo_load_def append_stats_def np_vstack_def np_array_int64_def Let_def)

text \<open>
  Claim C5 as stated fails when no example is kept: with a manifest whose only file does
  not decode, fewer than two distinct labels are present (none), and the run ends with
  the ValueError of \<^verbatim>\<open>np.vstack\<close>, not with the error of the class check.
\<close>

theorem class_check_no_kept_example_counterexample:
  "card (set (ls_y (main_loop demo_audio py_int demo_cfg2 [(''corrupt.wav'', IntCell 1)]))) < 2
   \<and> snd (main_train demo_joblib demo_sk demo_audio py_int ''m.joblib'' ''r.json'' demo_cfg2
          [(''corrupt.wav'', IntCell 1)] demo_files)
       = Inl (ValueError ''need at least one array to concatenate'')
   \<and> snd (main_train demo_joblib demo_sk demo_audio py_int ''m.joblib'' ''r.json'' demo_cfg2
          [(''corrupt.wav'', IntCell 1)] demo_files)
       \<noteq> Inl insufficient_classes"
  by (simp add: main_train_def main_loop_def loop_body_def loop_init_def
      demo_featurize_corrupt main_prepare_def np_vstack_def insufficient_classes_def Let_def)

section \<open>Facts about the split\<close>

lemma indices_mset:
  assumes "distinct l" and "set l = {..<n}"
  shows "mset l = mset [0..<n]"
proof -
  have "set l = set [0..<n]" using assms(2) by (simp add: atLeast0LessThan)
  with assms(1) show ?thesis
    using distinct_upt set_eq_iff_mset_eq_distinct by blast
qed

lemma mset_map_nth:
  assumes "mset l = mset [0..<length xs]"
  shows "mset (map ((!) xs) l) = mset xs"
proof -
  have "mset (map ((!) xs) l) = image_mset ((!) xs) (mset l)" by simp
  also have "\<dots> = image_mset ((!) xs) (mset [0..<length xs])" by (simp add: assms)
  also have "\<dots> = mset (map ((!) xs) [0..<length xs])" by simp
  also have "\<dots> = mset xs" by (simp add: map_nth)
  finally show ?thesis .
qed

lemma take_rows_Inr:
  "take_rows xs idx = Inr r \<longleftrightarrow> (\<forall>i \<in> set idx. i < length xs) \<and> r = map ((!) xs) idx"
proof (cases "\<exists>i \<in> set idx. length xs \<le> i")
  case True
  then have "\<not> (\<forall>i \<in> set idx. i < length xs)"
    using leD by blast
  with True show ?thesis by (simp add: take_rows_def)
next
  case False
  then have "\<forall>i \<in> set idx. i < length xs" by (simp add: not_le)
  with False show ?thesis by (auto simp: take_rows_def)
qed

lemma train_test_split_Inr:
  assumes "index_partition (sk_split_indices S)"
    and "train_test_split S X y ts seed = Inr (A, B, a, b)"
  shows "\<exists>tr te. sk_split_indices S y ts seed = Inr (tr, te) \<and> length X = length y
           \<and> distinct (tr @ te) \<and> set (tr @ te) = {..<length y}
           \<and> A = map ((!) X) tr \<and> B = map ((!) X) te
           \<and> a = map ((!) y) tr \<and> b = map ((!) y) te"
proof -
  from assms(2) have len: "length X = length y"
    by (auto simp: train_test_split_def split: if_splits)
  from assms(2) len obtain tr te where
    sp: "sk_split_indices S y ts seed = Inr (tr, te)"
    and rows: "take_rows X tr = Inr A" "take_rows X te = Inr B"
      "take_rows y tr = Inr a" "take_rows y te = Inr b"
    by (auto simp: train_test_split_def bindE_eq_Inr)
  from assms(1) sp have "distinct (tr @ te) \<and> set (tr @ te) = {..<length y}"
    unfolding index_partition_def by blast
  with sp len rows show ?thesis
    by (auto simp: take_rows_Inr)
qed


lemma main_split_Inr:
  assumes "main_split S cfg X y = Inr sp"
  shows "\<exists>ts1 seed1 ts2 seed2 X_temp y_temp.
           train_test_split S X y ts1 seed1 = Inr (X_train sp, X_temp, y_train sp, y_temp)
         \<and> train_test_split S X_temp y_temp ts2 seed2
             = Inr (X_val sp, X_test sp, y_val sp, y_test sp)"
  using assms
  by (fastforce simp: main_split_def bindE_eq_Inr)

lemma mset_eq_indices:
  assumes "mset l = mset [0..<n]"
  shows "distinct l" and "set l = {..<n}"
proof -
  show "distinct l" using assms distinct_upt mset_eq_imp_distinct_iff by blast
  have "set l = set [0..<n]" using assms by (rule mset_eq_setD)
  then show "set l = {..<n}" by (simp add: atLeast0LessThan)
qed

lemma two_stage_indices:
  assumes "distinct (tr1 @ te1)" and "set (tr1 @ te1) = {..<n}"
    and "distinct (tr2 @ te2)" and "set (tr2 @ te2) = {..<length te1}"
  shows "mset (tr1 @ map ((!) te1) tr2 @ map ((!) te1) te2) = mset [0..<n]"
proof -
  have "mset (tr2 @ te2) = mset [0..<length te1]"
    using assms(3,4) by (rule indices_mset)
  then have "mset (map ((!) te1) (tr2 @ te2)) = mset te1"
    by (rule mset_map_nth)
  then have "mset (tr1 @ map ((!) te1) tr2 @ map ((!) te1) te2) = mset (tr1 @ te1)"
    by simp
  also have "\<dots> = mset [0..<n]"
    using assms(1,2) by (rule indices_mset)
  finally show ?thesis .
qed

lemma nth_map_indices:
  assumes "\<forall>i \<in> set l. i < length te"
  shows "map ((!) (map ((!) xs) te)) l = map ((!) xs) (map ((!) te) l)"
  using assms by simp

lemma zip_map_nth:
  assumes "length X = length y" and "\<forall>i \<in> set l. i < length X"
  shows "zip (map ((!) X) l) (map ((!) y) l) = map ((!) (zip X y)) l"
  using assms by (induction l) simp_all

text \<open>What a successful run of the two stages gives, in row numbers of the input.\<close>

lemma main_split_indices:
  assumes part: "index_partition (sk_split_indices S)"
    and ok: "main_split S cfg X y = Inr sp"
  shows "\<exists>itr ival ite.
           mset (itr @ ival @ ite) = mset [0..<length X] \<and> length X = length y
         \<and> X_train sp = map ((!) X) itr \<and> y_train sp = map ((!) y) itr
         \<and> X_val sp = map ((!) X) ival \<and> y_val sp = map ((!) y) ival
         \<and> X_test sp = map ((!) X) ite \<and> y_test sp = map ((!) y) ite"
proof -
  from main_split_Inr [OF ok] obtain ts1 seed1 ts2 seed2 X_temp y_temp where
    s1: "train_test_split S X y ts1 seed1 = Inr (X_train sp, X_temp, y_train sp, y_temp)"
    and s2: "train_test_split S X_temp y_temp ts2 seed2
               = Inr (X_val sp, X_test sp, y_val sp, y_test sp)"
    by blast
  from train_test_split_Inr [OF part s1] obtain tr1 te1 where
    len: "length X = length y"
    and p1: "distinct (tr1 @ te1)" "set (tr1 @ te1) = {..<length y}"
    and v1: "X_train sp = map ((!) X) tr1" "X_temp = map ((!) X) te1"
      "y_train sp = map ((!) y) tr1" "y_temp = map ((!) y) te1"
    by blast
  from train_test_split_Inr [OF part s2] obtain tr2 te2 where
    p2: "distinct (tr2 @ te2)" "set (tr2 @ te2) = {..<length y_temp}"
    and v2: "X_val sp = map ((!) X_temp) tr2" "X_test sp = map ((!) X_temp) te2"
      "y_val sp = map ((!) y_temp) tr2" "y_test sp = map ((!) y_temp) te2"
    by blast
  have lt: "length y_temp = length te1" by (simp add: v1)
  have in2: "\<forall>i \<in> set tr2. i < length te1" "\<forall>i \<in> set te2. i < length te1"
    using p2(2) lt by auto
  let ?ival = "map ((!) te1) tr2" and ?ite = "map ((!) te1) te2"
  have "mset (tr1 @ ?ival @ ?ite) = mset [0..<length X]"
    using two_stage_indices [OF p1 p2(1)] p2(2) lt len by simp
  moreover have "X_val sp = map ((!) X) ?ival" "X_test sp = map ((!) X) ?ite"
    "y_val sp = map ((!) y) ?ival" "y_test sp = map ((!) y) ?ite"
    using v1 v2 in2 by (simp_all add: nth_map_indices)
  ultimately show ?thesis
    using len v1(1,3) by blast
qed

lemma main_split_mset:
  assumes part: "index_partition (sk_split_indices S)"
    and ok: "main_split S cfg X y = Inr sp"
  shows "mset (zip (X_train sp) (y_train sp)) + mset (zip (X_val sp) (y_val sp))
           + mset (zip (X_test sp) (y_test sp)) = mset (zip X y)"
proof -
  from main_split_indices [OF part ok] obtain itr ival ite where
    m: "mset (itr @ ival @ ite) = mset [0..<length X]" and len: "length X = length y"
    and v: "X_train sp = map ((!) X) itr" "y_train sp = map ((!) y) itr"
      "X_val sp = map ((!) X) ival" "y_val sp = map ((!) y) ival"
      "X_test sp = map ((!) X) ite" "y_test sp = map ((!) y) ite"
    by blast
  have "set (itr @ ival @ ite) = {..<length X}" using m by (rule mset_eq_indices)
  then have r: "\<forall>i \<in> set itr. i < length X" "\<forall>i \<in> set ival. i < length X"
    "\<forall>i \<in> set ite. i < length X"
    by auto
  have "mset (map ((!) (zip X y)) (itr @ ival @ ite)) = mset (zip X y)"
    using m len by (intro mset_map_nth) simp
  then show ?thesis
    by (simp add: v zip_map_nth [OF len] r ac_simps)
qed

lemma demo_index_partition: "index_partition demo_split"
proof -
  have "distinct ([0..<n - k] @ [n - k..<n]) \<and> set ([0..<n - k] @ [n - k..<n]) = {..<n}"
    if "k < n" for n k :: nat
  proof -
    have "[0..<n - k + k] = [0..<n - k] @ [n - k..<n - k + k]"
      by (rule upt_add_eq_append) simp
    then have "[0..<n - k] @ [n - k..<n] = [0..<n]"
      using that by simp
    then show ?thesis by (metis atLeast0LessThan distinct_upt set_upt)
  qed
  then show ?thesis
    unfolding index_partition_def demo_split_def Let_def
    by (auto split: if_splits simp: not_le)
qed

lemma demo_sk_partition: "index_partition (sk_split_indices demo_sk)"
  by (simp add: demo_sk_def demo_index_partition)




lemma main_split_params:
  assumes "main_split S cfg X y = Inr sp"
  shows "\<exists>ts1 seed1 ts2 seed2. \<forall>X y.
           main_split S cfg X y =
             bindE (train_test_split S X y ts1 seed1) (\<lambda>(Xtr, X_temp, ytr, y_temp).
             bindE (train_test_split S X_temp y_temp ts2 seed2) (\<lambda>(Xv, Xte, yv, yte).
             Inr \<lparr>X_train = Xtr, y_train = ytr, X_val = Xv, y_val = yv,
                  X_test = Xte, y_test = yte\<rparr>))"
proof -
  from assms obtain a ts1 seed1 where
    k1: "py_getitem cfg ''train_split'' = Inr a" "one_minus a = Inr ts1"
      "py_getitem cfg ''seed'' = Inr seed1"
    by (auto simp: main_split_def bindE_eq_Inr)
  from assms k1 obtain b c r where
    k2: "py_getitem cfg ''val_split'' = Inr b" "py_getitem cfg ''test_split'' = Inr c"
      "ratio_of b c = Inr r"
    by (auto simp: main_split_def bindE_eq_Inr)
  have "\<forall>X y. main_split S cfg X y =
             bindE (train_test_split S X y ts1 seed1) (\<lambda>(Xtr, X_temp, ytr, y_temp).
             bindE (train_test_split S X_temp y_temp (1 - r) seed1) (\<lambda>(Xv, Xte, yv, yte).
             Inr \<lparr>X_train = Xtr, y_train = ytr, X_val = Xv, y_val = yv,
                  X_test = Xte, y_test = yte\<rparr>))"
    by (simp add: main_split_def k1 k2)
  then show ?thesis by blast
qed

lemma train_test_split_rows:
  assumes "train_test_split S X y ts seed = Inr (A, B, a, b)"
  shows "\<exists>tr te. sk_split_indices S y ts seed = Inr (tr, te)
           \<and> (\<forall>i \<in> set tr. i < length y) \<and> (\<forall>i \<in> set te. i < length y)
           \<and> length X = length y
           \<and> A = map ((!) X) tr \<and> B = map ((!) X) te
           \<and> a = map ((!) y) tr \<and> b = map ((!) y) te"
proof -
  from assms have len: "length X = length y"
    by (auto simp: train_test_split_def split: if_splits)
  from assms len obtain tr te where
    "sk_split_indices S y ts seed = Inr (tr, te)"
    "take_rows X tr = Inr A" "take_rows X te = Inr B"
    "take_rows y tr = Inr a" "take_rows y te = Inr b"
    by (auto simp: train_test_split_def bindE_eq_Inr)
  with len show ?thesis
    by (auto simp: take_rows_Inr)
qed

text \<open>Two inputs with the same labels: the same row numbers are selected.\<close>

lemma main_split_same_rows:
  assumes "main_split S cfg X y = Inr sp" and "main_split S cfg X' y = Inr sp'"
  shows "\<exists>itr ival ite.
           X_train sp = map ((!) X) itr \<and> X_train sp' = map ((!) X') itr
         \<and> X_val sp = map ((!) X) ival \<and> X_val sp' = map ((!) X') ival
         \<and> X_test sp = map ((!) X) ite \<and> X_test sp' = map ((!) X') ite"
proof -
  from main_split_params [OF assms(1)] obtain ts1 seed1 ts2 seed2 where
    eq: "\<And>X y. main_split S cfg X y =
             bindE (train_test_split S X y ts1 seed1) (\<lambda>(Xtr, X_temp, ytr, y_temp).
             bindE (train_test_split S X_temp y_temp ts2 seed2) (\<lambda>(Xv, Xte, yv, yte).
             Inr \<lparr>X_train = Xtr, y_train = ytr, X_val = Xv, y_val = yv,
                  X_test = Xte, y_test = yte\<rparr>))"
    by blast
  from assms(1) obtain Xt yt where
    a1: "train_test_split S X y ts1 seed1 = Inr (X_train sp, Xt, y_train sp, yt)"
    and a2: "train_test_split S Xt yt ts2 seed2 = Inr (X_val sp, X_test sp, y_val sp, y_test sp)"
    unfolding eq by (fastforce simp: bindE_eq_Inr)
  from assms(2) obtain Xt' yt' where
    b1: "train_test_split S X' y ts1 seed1 = Inr (X_train sp', Xt', y_train sp', yt')"
    and b2: "train_test_split S Xt' yt' ts2 seed2
               = Inr (X_val sp', X_test sp', y_val sp', y_test sp')"
    unfolding eq by (fastforce simp: bindE_eq_Inr)
  from train_test_split_rows [OF a1] train_test_split_rows [OF b1] obtain tr1 te1 where
    r1: "X_train sp = map ((!) X) tr1" "Xt = map ((!) X) te1" "yt = map ((!) y) te1"
      "X_train sp' = map ((!) X') tr1" "Xt' = map ((!) X') te1" "yt' = map ((!) y) te1"
    by auto
  have yt: "yt' = yt" by (simp add: r1)
  from train_test_split_rows [OF a2] train_test_split_rows [OF b2 [unfolded yt]]
  obtain tr2 te2 where
    r2: "\<forall>i \<in> set tr2. i < length yt" "\<forall>i \<in> set te2. i < length yt"
      "X_val sp = map ((!) Xt) tr2" "X_test sp = map ((!) Xt) te2"
      "X_val sp' = map ((!) Xt') tr2" "X_test sp' = map ((!) Xt') te2"
    by auto
  have in2: "\<forall>i \<in> set tr2. i < length te1" "\<forall>i \<in> set te2. i < length te1"
    using r2(1,2) by (simp_all add: r1)
  have "X_val sp = map ((!) X) (map ((!) te1) tr2)" "X_val sp' = map ((!) X') (map ((!) te1) tr2)"
    "X_test sp = map ((!) X) (map ((!) te1) te2)" "X_test sp' = map ((!) X') (map ((!) te1) te2)"
    using r1 r2 in2 by (simp_all add: nth_map_indices)
  with r1(1,4) show ?thesis by blast
qed

text \<open>The split of another array of feature rows with the same labels succeeds as well.\<close>

lemma train_test_split_other_rows:
  assumes "train_test_split S X y ts seed = Inr (A, B, a, b)" and "length X' = length X"
  shows "\<exists>A' B'. train_test_split S X' y ts seed = Inr (A', B', a, b)
           \<and> length A' = length A \<and> length B' = length B"
proof -
  from train_test_split_rows [OF assms(1)] obtain tr te where
    sp: "sk_split_indices S y ts seed = Inr (tr, te)"
    and r: "\<forall>i \<in> set tr. i < length y" "\<forall>i \<in> set te. i < length y"
    and len: "length X = length y"
    and v: "A = map ((!) X) tr" "B = map ((!) X) te" "a = map ((!) y) tr" "b = map ((!) y) te"
    by blast
  have "take_rows X' tr = Inr (map ((!) X') tr)" "take_rows X' te = Inr (map ((!) X') te)"
    "take_rows y tr = Inr a" "take_rows y te = Inr b"
    using r len assms(2) v by (simp_all add: take_rows_Inr)
  then have "train_test_split S X' y ts seed = Inr (map ((!) X') tr, map ((!) X') te, a, b)"
    using sp len assms(2) by (simp add: train_test_split_def)
  then show ?thesis by (simp add: v)
qed

lemma main_split_other_rows:
  assumes "main_split S cfg X y = Inr sp" and "length X' = length X"
  shows "\<exists>sp'. main_split S cfg X' y = Inr sp'"
proof -
  from main_split_params [OF assms(1)] obtain ts1 seed1 ts2 seed2 where
    eq: "\<And>X y. main_split S cfg X y =
             bindE (train_test_split S X y ts1 seed1) (\<lambda>(Xtr, X_temp, ytr, y_temp).
             bindE (train_test_split S X_temp y_temp ts2 seed2) (\<lambda>(Xv, Xte, yv, yte).
             Inr \<lparr>X_train = Xtr, y_train = ytr, X_val = Xv, y_val = yv,
                  X_test = Xte, y_test = yte\<rparr>))"
    by blast
  from assms(1) obtain Xt yt where
    a1: "train_test_split S X y ts1 seed1 = Inr (X_train sp, Xt, y_train sp, yt)"
    and a2: "train_test_split S Xt yt ts2 seed2 = Inr (X_val sp, X_test sp, y_val sp, y_test sp)"
    unfolding eq by (fastforce simp: bindE_eq_Inr)
  from train_test_split_other_rows [OF a1 assms(2)] obtain A' B' where
    b1: "train_test_split S X' y ts1 seed1 = Inr (A', B', y_train sp, yt)"
    and lb: "length B' = length Xt"
    by blast
  from train_test_split_other_rows [OF a2 lb] obtain C' D' where
    b2: "train_test_split S B' yt ts2 seed2 = Inr (C', D', y_val sp, y_test sp)"
    by blast
  show ?thesis
    by (simp add: eq b1 b2)
qed

text \<open>Exchanging two examples of one label: a permutation of the examples that moves an
  example into the train subset.\<close>

lemma swap_rows_mset:
  assumes "i < length X" and "j < length X" and "length X = length y" and "y ! i = y ! j"
  shows "mset (zip (X[i := X ! j, j := X ! i]) y) = mset (zip X y)"
proof -
  let ?zs = "zip X y"
  have "zip (X[i := X ! j, j := X ! i]) (y[i := y ! j, j := y ! i])
          = ?zs[i := ?zs ! j, j := ?zs ! i]"
    using assms by (simp add: zip_update)
  moreover have "y[i := y ! j, j := y ! i] = y"
    using assms(4) by (metis list_update_id)
  moreover have "mset (?zs[i := ?zs ! j, j := ?zs ! i]) = mset ?zs"
    using assms by (intro mset_swap) simp_all
  ultimately show ?thesis by simp
qed

lemma main_split_same_rows_range:
  assumes "main_split S cfg X y = Inr sp" and "main_split S cfg X' y = Inr sp'"
  shows "\<exists>itr. (\<forall>k \<in> set itr. k < length X)
           \<and> X_train sp = map ((!) X) itr \<and> X_train sp' = map ((!) X') itr"
proof -
  from main_split_params [OF assms(1)] obtain ts1 seed1 ts2 seed2 where
    eq: "\<And>X y. main_split S cfg X y =
             bindE (train_test_split S X y ts1 seed1) (\<lambda>(Xtr, X_temp, ytr, y_temp).
             bindE (train_test_split S X_temp y_temp ts2 seed2) (\<lambda>(Xv, Xte, yv, yte).
             Inr \<lparr>X_train = Xtr, y_train = ytr, X_val = Xv, y_val = yv,
                  X_test = Xte, y_test = yte\<rparr>))"
    by blast
  from assms(1) obtain Xt yt where
    a1: "train_test_split S X y ts1 seed1 = Inr (X_train sp, Xt, y_train sp, yt)"
    unfolding eq by (fastforce simp: bindE_eq_Inr)
  from assms(2) obtain Xt' yt' where
    b1: "train_test_split S X' y ts1 seed1 = Inr (X_train sp', Xt', y_train sp', yt')"
    unfolding eq by (fastforce simp: bindE_eq_Inr)
  from train_test_split_rows [OF a1] train_test_split_rows [OF b1] obtain tr where
    "\<forall>k \<in> set tr. k < length X" "X_train sp = map ((!) X) tr"
    "X_train sp' = map ((!) X') tr"
    by auto
  then show ?thesis by blast
qed

lemma swap_changes_train:
  assumes ok: "main_split S cfg X y = Inr sp"
    and ok': "main_split S cfg (X[i := X ! j, j := X ! i]) y = Inr sp'"
    and d: "distinct X" and i: "i < length X" and j: "j < length X"
    and ti: "X ! i \<in> set (X_train sp)" and tj: "X ! j \<notin> set (X_train sp)"
  shows "X ! j \<in> set (X_train sp')"
proof -
  from main_split_same_rows_range [OF ok ok'] obtain itr where
    r: "\<forall>k \<in> set itr. k < length X"
    and v: "X_train sp = map ((!) X) itr"
      "X_train sp' = map ((!) (X[i := X ! j, j := X ! i])) itr"
    by blast
  from ti v(1) obtain k where k: "k \<in> set itr" "X ! k = X ! i" by auto
  with r d i have "k = i" by (simp add: nth_eq_iff_index_eq)
  with k have "i \<in> set itr" by simp
  moreover have "i \<noteq> j" using ti tj by auto
  then have "X[i := X ! j, j := X ! i] ! i = X ! j" using i by simp
  ultimately show ?thesis
    unfolding v(2) by (metis image_eqI set_map)
qed

text \<open>
  Claim C4, as amended. The code does not sort or canonicalise the examples before
  splitting: the library selects row numbers from the label sequence, the test size and
  the seed, and the subsets are the rows at these numbers. For two orders of the same
  examples on which the split succeeds, the three subsets together hold the same
  examples; when the label sequence is the same in both orders, the same row numbers
  are selected, so each subset holds whatever examples stand at these rows; and
  exchanging an example of the train subset with an example of the same label outside it
  (the feature rows being pairwise different) is a reordering on which the split
  succeeds again and puts the other example into the train subset.
\<close>

theorem split_union_invariant_under_reordering:
  assumes "index_partition (sk_split_indices S)"
    and "mset (zip X' y') = mset (zip X y)"
    and "main_split S cfg X y = Inr sp" and "main_split S cfg X' y' = Inr sp'"
  shows "mset (zip (X_train sp') (y_train sp')) + mset (zip (X_val sp') (y_val sp'))
           + mset (zip (X_test sp') (y_test sp'))
         = mset (zip (X_train sp) (y_train sp)) + mset (zip (X_val sp) (y_val sp))
           + mset (zip (X_test sp) (y_test sp))
       \<and> (y' = y \<longrightarrow>
            (\<exists>itr ival ite.
               X_train sp = map ((!) X) itr \<and> X_train sp' = map ((!) X') itr
             \<and> X_val sp = map ((!) X) ival \<and> X_val sp' = map ((!) X') ival
             \<and> X_test sp = map ((!) X) ite \<and> X_test sp' = map ((!) X') ite))
       \<and> (\<forall>i j. i < length X \<longrightarrow> j < length X \<longrightarrow> distinct X \<longrightarrow> y ! i = y ! j \<longrightarrow>
            X ! i \<in> set (X_train sp) \<longrightarrow> X ! j \<notin> set (X_train sp) \<longrightarrow>
            (\<exists>sp''. main_split S cfg (X[i := X ! j, j := X ! i]) y = Inr sp''
               \<and> mset (zip (X[i := X ! j, j := X ! i]) y) = mset (zip X y)
               \<and> X ! j \<in> set (X_train sp'')))"
proof (intro conjI impI allI)
  show "mset (zip (X_train sp') (y_train sp')) + mset (zip (X_val sp') (y_val sp'))
           + mset (zip (X_test sp') (y_test sp'))
         = mset (zip (X_train sp) (y_train sp)) + mset (zip (X_val sp) (y_val sp))
           + mset (zip (X_test sp) (y_test sp))"
    using main_split_mset [OF assms(1) assms(3)] main_split_mset [OF assms(1) assms(4)]
      assms(2) by simp
next
  assume "y' = y"
  with assms(3,4) show "\<exists>itr ival ite.
               X_train sp = map ((!) X) itr \<and> X_train sp' = map ((!) X') itr
             \<and> X_val sp = map ((!) X) ival \<and> X_val sp' = map ((!) X') ival
             \<and> X_test sp = map ((!) X) ite \<and> X_test sp' = map ((!) X') ite"
    using main_split_same_rows by blast
next
  fix i j
  assume i: "i < length X" and j: "j < length X" and d: "distinct X"
    and l: "y ! i = y ! j"
    and ti: "X ! i \<in> set (X_train sp)" and tj: "X ! j \<notin> set (X_train sp)"
  let ?X = "X[i := X ! j, j := X ! i]"
  have len: "length X = length y"
    using main_split_indices [OF assms(1) assms(3)] by blast
  obtain sp'' where ok'': "main_split S cfg ?X y = Inr sp''"
    using main_split_other_rows [OF assms(3), of ?X] by auto
  have "mset (zip ?X y) = mset (zip X y)"
    using i j len l by (rule swap_rows_mset)
  moreover have "X ! j \<in> set (X_train sp'')"
    using assms(3) ok'' d i j ti tj by (rule swap_changes_train)
  ultimately show "\<exists>sp''. main_split S cfg ?X y = Inr sp''
               \<and> mset (zip ?X y) = mset (zip X y) \<and> X ! j \<in> set (X_train sp'')"
    using ok'' by blast
qed

lemma demo_split_run8:
  "main_split demo_sk demo_cfg2 [[1], [2], [3], [4], [5], [6], [7], [8]]
     [0, 1, 0, 1, 0, 1, 0, 1] =
     Inr \<lparr>X_train = [[1], [2], [3], [4]], y_train = [0, 1, 0, 1],
          X_val = [[5], [6]], y_val = [0, 1], X_test = [[7], [8]], y_test = [0, 1]\<rparr>"
  by (simp add: main_split_def demo_cfg2_def one_minus_def ratio_of_def train_test_split_def
      demo_sk_def demo_split_def take_rows_def Let_def)

lemma demo_split_run8_swapped:
  "main_split demo_sk demo_cfg2 [[5], [2], [3], [4], [1], [6], [7], [8]]
     [0, 1, 0, 1, 0, 1, 0, 1] =
     Inr \<lparr>X_train = [[5], [2], [3], [4]], y_train = [0, 1, 0, 1],
          X_val = [[1], [6]], y_val = [0, 1], X_test = [[7], [8]], y_test = [0, 1]\<rparr>"
  by (simp add: main_split_def demo_cfg2_def one_minus_def ratio_of_def train_test_split_def
      demo_sk_def demo_split_def take_rows_def Let_def)

theorem split_union_invariant_under_reordering_witness:
  "mset (zip [[5], [2], [3], [4::real]] [0, 1, 0, 1::int]) + mset (zip [[1], [6]] [0, 1])
       + mset (zip [[7], [8]] [0, 1])
     = mset (zip [[1], [2], [3], [4]] [0, 1, 0, 1]) + mset (zip [[5], [6]] [0, 1])
       + mset (zip [[7], [8]] [0, 1])
   \<and> (\<exists>itr. [[1], [2], [3], [4]] = map ((!) [[1], [2], [3], [4], [5], [6], [7], [8::real]]) itr
       \<and> [[5], [2], [3], [4]] = map ((!) [[5], [2], [3], [4], [1], [6], [7], [8::real]]) itr)
   \<and> (\<exists>sp''. main_split demo_sk demo_cfg2 [[5], [2], [3], [4], [1], [6], [7], [8]]
                 [0, 1, 0, 1, 0, 1, 0, 1] = Inr sp''
         \<and> [5] \<in> set (X_train sp''))"
proof -
  note th = split_union_invariant_under_reordering [OF demo_sk_partition _
      demo_split_run8 demo_split_run8_swapped]
  have perm: "mset (zip [[5], [2], [3], [4], [1], [6], [7], [8::real]]
                   [0, 1, 0, 1, 0, 1, 0, 1::int])
              = mset (zip [[1], [2], [3], [4], [5], [6], [7], [8]] [0, 1, 0, 1, 0, 1, 0, 1])"
    by simp
  note u0 = th [OF perm, THEN conjunct1]
  note r0 = th [OF perm, THEN conjunct2, THEN conjunct1]
  note s = th [OF perm, THEN conjunct2, THEN conjunct2]
  from u0 have
    u: "mset (zip [[5], [2], [3], [4::real]] [0, 1, 0, 1::int]) + mset (zip [[1], [6]] [0, 1])
          + mset (zip [[7], [8]] [0, 1])
        = mset (zip [[1], [2], [3], [4]] [0, 1, 0, 1]) + mset (zip [[5], [6]] [0, 1])
          + mset (zip [[7], [8]] [0, 1])"
    by simp
  from r0 [rule_format, OF refl] have
    r: "\<exists>itr. [[1], [2], [3], [4]] = map ((!) [[1], [2], [3], [4], [5], [6], [7], [8::real]]) itr
       \<and> [[5], [2], [3], [4]] = map ((!) [[5], [2], [3], [4], [1], [6], [7], [8::real]]) itr"
    unfolding split_result.select_convs by (elim exE conjE) (intro exI conjI; assumption)
  from s [rule_format, of 0 4] have
    "\<exists>sp''. main_split demo_sk demo_cfg2 [[5], [2], [3], [4], [1], [6], [7], [8]]
                 [0, 1, 0, 1, 0, 1, 0, 1] = Inr sp''
         \<and> [5] \<in> set (X_train sp'')"
    by simp
  with u r show ?thesis by blast
qed

text \<open>
  Claim C4 as stated fails: with eight examples, four of each label, exchanging the first
  and the fifth example (both of label 0) gives a permutation of the input for which the
  train subset no longer holds the first example.
\<close>

theorem split_not_invariant_counterexample:
  "mset (zip [[5], [2], [3], [4], [1], [6], [7], [8::real]] [0, 1, 0, 1, 0, 1, 0, 1::int])
     = mset (zip [[1], [2], [3], [4], [5], [6], [7], [8]] [0, 1, 0, 1, 0, 1, 0, 1])
   \<and> main_split demo_sk demo_cfg2 [[1], [2], [3], [4], [5], [6], [7], [8]]
       [0, 1, 0, 1, 0, 1, 0, 1] =
       Inr \<lparr>X_train = [[1], [2], [3], [4]], y_train = [0, 1, 0, 1],
            X_val = [[5], [6]], y_val = [0, 1], X_test = [[7], [8]], y_test = [0, 1]\<rparr>
   \<and> main_split demo_sk demo_cfg2 [[5], [2], [3], [4], [1], [6], [7], [8]]
       [0, 1, 0, 1, 0, 1, 0, 1] =
       Inr \<lparr>X_train = [[5], [2], [3], [4]], y_train = [0, 1, 0, 1],
            X_val = [[1], [6]], y_val = [0, 1], X_test = [[7], [8]], y_test = [0, 1]\<rparr>
   \<and> ([1::real], 0::int) \<in> set (zip [[1], [2], [3], [4]] [0, 1, 0, 1])
   \<and> ([1::real], 0::int) \<notin> set (zip [[5], [2], [3], [4]] [0, 1, 0, 1])"
  using demo_split_run8 demo_split_run8_swapped by simp

section \<open>Facts about the threshold, the artifact and the prediction script\<close>

lemma ge_half_iff: "ge_half p = 1 \<longleftrightarrow> 1 / 2 \<le> p" "ge_half p \<noteq> 0 \<longleftrightarrow> 1 / 2 \<le> p"
  by (simp_all add: ge_half_def)

lemma main_fit_eval_Inr:
  assumes "main_fit_eval S cfg sp n = Inr ev"
  shows "\<exists>Pv Pt.
           sk_predict_proba S (er_model ev) (X_val sp) = Inr Pv
         \<and> column1 Pv = Inr (er_val_prob ev)
         \<and> sk_predict_proba S (er_model ev) (X_test sp) = Inr Pt
         \<and> column1 Pt = Inr (er_test_prob ev)
         \<and> er_val_pred ev = map ge_half (er_val_prob ev)
         \<and> er_test_pred ev = map ge_half (er_test_prob ev)
         \<and> sk_classification_report S (y_val sp) (er_val_pred ev)
             = Inr (val_report (er_metrics ev))
         \<and> sk_classification_report S (y_test sp) (er_test_pred ev)
             = Inr (test_report (er_metrics ev))"
  using assms
  by (fastforce simp: main_fit_eval_def bindE_eq_Inr Let_def)

lemma main_predict_Inr:
  assumes "main_predict J S L fs audio_path model_path cfg = Inr r"
  shows "\<exists>pack model x P.
           load_file J fs model_path = Inr pack
         \<and> obj_getitem pack ''model'' = Inr model
         \<and> featurize L audio_path cfg = Inr x
         \<and> obj_predict_proba S model [x] = Inr P
         \<and> entry01 P = Inr (pr_probability r)
         \<and> pr_file r = audio_path
         \<and> pr_prediction r = (if 1 / 2 \<le> pr_probability r then ''piano'' else ''non_piano'')"
  using assms
  by (fastforce simp: main_predict_def bindE_eq_Inr Let_def ge_half_def)

text \<open>
  Claim C6. The threshold is inclusive: a probability of exactly one half gives label 1.
  In the training script the thresholded predictions of the validation and of the test
  subset are the entrywise threshold of the probabilities of class 1 that the fitted model
  returns, and the classification reports are computed from them; in the prediction
  script the printed label is \<^verbatim>\<open>piano\<close> exactly when the probability the loaded model
  returns for the file is at least one half.
\<close>

theorem threshold_is_inclusive:
  assumes "main_fit_eval S cfg sp n = Inr ev"
    and "main_predict J S L fs audio_path model_path cfg' = Inr r"
  shows "ge_half (1 / 2) = 1
       \<and> (\<exists>Pv Pt.
            sk_predict_proba S (er_model ev) (X_val sp) = Inr Pv
          \<and> column1 Pv = Inr (er_val_prob ev)
          \<and> sk_predict_proba S (er_model ev) (X_test sp) = Inr Pt
          \<and> column1 Pt = Inr (er_test_prob ev))
       \<and> sk_classification_report S (y_val sp) (er_val_pred ev)
           = Inr (val_report (er_metrics ev))
       \<and> sk_classification_report S (y_test sp) (er_test_pred ev)
           = Inr (test_report (er_metrics ev))
       \<and> length (er_val_pred ev) = length (er_val_prob ev)
       \<and> length (er_test_pred ev) = length (er_test_prob ev)
       \<and> (\<forall>i < length (er_val_prob ev).
            (er_val_prob ev ! i = 1 / 2 \<longrightarrow> er_val_pred ev ! i = 1)
          \<and> (er_val_pred ev ! i = 1 \<longleftrightarrow> 1 / 2 \<le> er_val_prob ev ! i))
       \<and> (\<forall>i < length (er_test_prob ev).
            (er_test_prob ev ! i = 1 / 2 \<longrightarrow> er_test_pred ev ! i = 1)
          \<and> (er_test_pred ev ! i = 1 \<longleftrightarrow> 1 / 2 \<le> er_test_prob ev ! i))
       \<and> (\<exists>pack model x P.
            load_file J fs model_path = Inr pack
          \<and> obj_getitem pack ''model'' = Inr model
          \<and> featurize L audio_path cfg' = Inr x
          \<and> obj_predict_proba S model [x] = Inr P
          \<and> entry01 P = Inr (pr_probability r))
       \<and> (pr_probability r = 1 / 2 \<longrightarrow> pr_prediction r = ''piano'')
       \<and> (pr_prediction r = ''piano'' \<longleftrightarrow> 1 / 2 \<le> pr_probability r)"
proof -
  from main_fit_eval_Inr [OF assms(1)] obtain Pv Pt where
    e: "sk_predict_proba S (er_model ev) (X_val sp) = Inr Pv"
      "column1 Pv = Inr (er_val_prob ev)"
      "sk_predict_proba S (er_model ev) (X_test sp) = Inr Pt"
      "column1 Pt = Inr (er_test_prob ev)"
    and p: "er_val_pred ev = map ge_half (er_val_prob ev)"
      "er_test_pred ev = map ge_half (er_test_prob ev)"
    and c: "sk_classification_report S (y_val sp) (er_val_pred ev)
             = Inr (val_report (er_metrics ev))"
      "sk_classification_report S (y_test sp) (er_test_pred ev)
             = Inr (test_report (er_metrics ev))"
    by blast
  from main_predict_Inr [OF assms(2)] obtain pack model x P where
    q: "load_file J fs model_path = Inr pack" "obj_getitem pack ''model'' = Inr model"
      "featurize L audio_path cfg' = Inr x" "obj_predict_proba S model [x] = Inr P"
      "entry01 P = Inr (pr_probability r)"
    and l: "pr_prediction r = (if 1 / 2 \<le> pr_probability r then ''piano'' else ''non_piano'')"
    by blast
  have "ge_half (1 / 2) = 1" by (simp add: ge_half_def)
  moreover have "\<forall>i < length (er_val_prob ev).
            (er_val_prob ev ! i = 1 / 2 \<longrightarrow> er_val_pred ev ! i = 1)
          \<and> (er_val_pred ev ! i = 1 \<longleftrightarrow> 1 / 2 \<le> er_val_prob ev ! i)"
    by (simp add: p ge_half_def)
  moreover have "\<forall>i < length (er_test_prob ev).
            (er_test_prob ev ! i = 1 / 2 \<longrightarrow> er_test_pred ev ! i = 1)
          \<and> (er_test_pred ev ! i = 1 \<longleftrightarrow> 1 / 2 \<le> er_test_prob ev ! i)"
    by (simp add: p ge_half_def)
  moreover have "pr_probability r = 1 / 2 \<longrightarrow> pr_prediction r = ''piano''"
    "pr_prediction r = ''piano'' \<longleftrightarrow> 1 / 2 \<le> pr_probability r"
    by (simp_all add: l)
  moreover have "length (er_val_pred ev) = length (er_val_prob ev)"
    "length (er_test_pred ev) = length (er_test_prob ev)"
    by (simp_all add: p)
  ultimately show ?thesis
    using e c q by blast
qed


lemma demo_fit_eval:
  "main_fit_eval demo_sk demo_cfg2
     \<lparr>X_train = [[1], [2]], y_train = [0, 1], X_val = [[3]], y_val = [0],
      X_test = [[4]], y_test = [1]\<rparr> 4 =
   Inr \<lparr>er_model = 1 / 2, er_val_prob = [1 / 2], er_test_prob = [1 / 2],
        er_val_pred = [1], er_test_pred = [1],
        er_metrics = \<lparr>val_report = 0, test_report = 1, val_auc = 1 / 2, test_auc = 1 / 2,
                       num_samples = 4\<rparr>\<rparr>"
  by (simp add: main_fit_eval_def demo_cfg2_keys demo_sk_def column1_def ge_half_def Let_def)

lemma demo_predict:
  "main_predict demo_joblib demo_sk demo_audio (demo_artifact stored) ''a.wav'' ''m.joblib''
     demo_cfg2 =
   Inr \<lparr>pr_file = ''a.wav'', pr_probability = 1 / 2, pr_prediction = ''piano''\<rparr>"
  by (simp add: main_predict_def load_file_def demo_artifact_def demo_joblib_def
      featurize_def demo_cfg2_keys demo_audio_def demo_load_def append_stats_def
      demo_sk_def entry01_def ge_half_def)

theorem threshold_is_inclusive_witness:
  "er_val_prob \<lparr>er_model = 1 / 2, er_val_prob = [1 / 2], er_test_prob = [1 / 2],
        er_val_pred = [1], er_test_pred = [1],
        er_metrics = \<lparr>val_report = 0::nat, test_report = 1, val_auc = 1 / 2, test_auc = 1 / 2,
                       num_samples = 4\<rparr>\<rparr> ! 0 = 1 / 2
   \<and> er_val_pred \<lparr>er_model = 1 / 2, er_val_prob = [1 / 2], er_test_prob = [1 / 2],
        er_val_pred = [1], er_test_pred = [1],
        er_metrics = \<lparr>val_report = 0::nat, test_report = 1, val_auc = 1 / 2, test_auc = 1 / 2,
                       num_samples = 4\<rparr>\<rparr> ! 0 = 1
   \<and> pr_probability \<lparr>pr_file = ''a.wav'', pr_probability = 1 / 2, pr_prediction = ''piano''\<rparr>
       = 1 / 2
   \<and> pr_prediction \<lparr>pr_file = ''a.wav'', pr_probability = 1 / 2, pr_prediction = ''piano''\<rparr>
       = ''piano''
   \<and> main_predict demo_joblib demo_sk demo_audio (demo_artifact demo_cfg2) ''a.wav''
       ''m.joblib'' demo_cfg2 =
       Inr \<lparr>pr_file = ''a.wav'', pr_probability = 1 / 2, pr_prediction = ''piano''\<rparr>"
  using threshold_is_inclusive [OF demo_fit_eval demo_predict [of demo_cfg2]]
    demo_predict [of demo_cfg2]
  by simp







text \<open>
  Claim C9. The prediction script never reads the configuration stored in the artifact.
  For two artifacts with the same model and any two stored configurations the script gives
  the same result; that result is computed from the supplied configuration and the model
  alone, its only exceptions being those of the feature extractor, of
  \<^verbatim>\<open>predict_proba\<close> and of the indexing; and whenever these three succeed the script
  ends with a prediction, whether or not the stored configuration equals the supplied one.
\<close>

theorem stored_config_is_never_compared:
  assumes "load_file J fs1 p1 = Inr (PDict [(''model'', PModel m), (''config'', PConfig stored1)])"
    and "load_file J fs2 p2 = Inr (PDict [(''model'', PModel m), (''config'', PConfig stored2)])"
  shows "main_predict J S L fs1 audio p1 cfg = main_predict J S L fs2 audio p2 cfg
       \<and> main_predict J S L fs1 audio p1 cfg =
           bindE (featurize L audio cfg) (\<lambda>x.
           bindE (sk_predict_proba S m [x]) (\<lambda>P.
           bindE (entry01 P) (\<lambda>p.
           Inr \<lparr>pr_file = audio, pr_probability = p,
                pr_prediction = (if 1 / 2 \<le> p then ''piano'' else ''non_piano'')\<rparr>)))
       \<and> (\<forall>x P q. featurize L audio cfg = Inr x \<longrightarrow> sk_predict_proba S m [x] = Inr P \<longrightarrow>
            entry01 P = Inr q \<longrightarrow>
            main_predict J S L fs1 audio p1 cfg =
              Inr \<lparr>pr_file = audio, pr_probability = q,
                   pr_prediction = (if 1 / 2 \<le> q then ''piano'' else ''non_piano'')\<rparr>)"
proof -
  have eq: "main_predict J S L fs audio p cfg =
           bindE (featurize L audio cfg) (\<lambda>x.
           bindE (sk_predict_proba S m [x]) (\<lambda>P.
           bindE (entry01 P) (\<lambda>p.
           Inr \<lparr>pr_file = audio, pr_probability = p,
                pr_prediction = (if 1 / 2 \<le> p then ''piano'' else ''non_piano'')\<rparr>)))"
    if "load_file J fs p = Inr (PDict [(''model'', PModel m), (''config'', PConfig stored)])"
    for fs p stored
    using that by (simp add: main_predict_def ge_half_iff Let_def)
  show ?thesis
    by (simp add: eq [OF assms(1)] eq [OF assms(2)])
qed

theorem stored_config_is_never_compared_witness:
  "demo_cfg \<noteq> demo_cfg2
   \<and> main_predict demo_joblib demo_sk demo_audio (demo_artifact demo_cfg) ''a.wav''
       ''m.joblib'' demo_cfg2
     = main_predict demo_joblib demo_sk demo_audio (demo_artifact demo_cfg2) ''a.wav''
       ''m.joblib'' demo_cfg2
   \<and> main_predict demo_joblib demo_sk demo_audio (demo_artifact demo_cfg) ''a.wav''
       ''m.joblib'' demo_cfg2
     = Inr \<lparr>pr_file = ''a.wav'', pr_probability = 1 / 2, pr_prediction = ''piano''\<rparr>"
proof -
  have ld: "load_file demo_joblib (demo_artifact stored) ''m.joblib''
              = Inr (PDict [(''model'', PModel (1 / 2)), (''config'', PConfig stored)])"
    for stored
    by (simp add: load_file_def demo_artifact_def demo_joblib_def)
  have ne: "demo_cfg \<noteq> demo_cfg2"
    by (simp add: demo_cfg_def demo_cfg2_def)
  from stored_config_is_never_compared [OF ld [of demo_cfg] ld [of demo_cfg2],
      of demo_sk demo_audio "''a.wav''" demo_cfg2] ne demo_predict [of demo_cfg]
  show ?thesis by simp
qed

end
